theory Spec2Isabelle
  imports Main "HOL-Library.Sublist" "HOL-Library.AList"
begin

section \<open>Python values and exceptions\<close>

text \<open>
  The accelerator module \<^verbatim>\<open>py3_cElementTree.c\<close> handles two sorts of Python
  objects. Immutable data (tags, text, attribute dictionaries, position tuples) is
  modelled by value as \<open>pyval\<close>. Elements are mutable and compared by pointer, so they
  live in a heap and are named by their address (\<open>objref\<close>).

  Strings are byte strings (the UTF-8 form of a Python \<^verbatim>\<open>str\<close>). Counters that the C
  code keeps in \<^verbatim>\<open>int\<close> or \<^verbatim>\<open>Py_ssize_t\<close> are mathematical integers here: the
  model is that of the C code as long as its arithmetic stays in range. Failure of the
  memory allocator and reference counts are not part of the model.
\<close>

datatype pyval =
    PyNone
  | PyStr string
  | PyBytes string
  | PyInt int
  | PyList "pyval list"
  | PyTuple "pyval list"
  | PyDict "(pyval \<times> pyval) list"

type_synonym addr = nat

datatype objref = Py_None | Elem addr

datatype xml_error = XML_ERROR_UNDEFINED_ENTITY

datatype error =
    ParseError string "(xml_error \<times> int \<times> int) option"
  | IndexError string
  | ValueError string
  | TypeError string
  | AttributeError string
  | SystemError
  | UnicodeDecodeError
  | MemoryFault

text \<open>
  \<open>ParseError msg None\<close> is the exception raised with a bare message;
  \<open>ParseError msg (Some (code, line, column))\<close> is the one \<^verbatim>\<open>expat_set_error\<close> builds,
  with its \<^verbatim>\<open>code\<close> and \<^verbatim>\<open>position\<close> attributes. \<open>MemoryFault\<close> stands for a
  dereference the C code performs on a pointer that is not an element; it only occurs in
  states the module never builds.
\<close>

fun PyList_CheckExact :: "pyval \<Rightarrow> bool" where
  "PyList_CheckExact (PyList xs) = True"
| "PyList_CheckExact v = False"

fun is_str :: "pyval \<Rightarrow> bool" where
  "is_str (PyStr s) = True"
| "is_str v = False"

fun str_of :: "pyval \<Rightarrow> string" where
  "str_of (PyStr s) = s"
| "str_of v = []"

text \<open>
  \<^verbatim>\<open>PyUnicode_Join\<close> with the empty separator: every item of the sequence must be a
  \<^verbatim>\<open>str\<close>, otherwise TypeError. The sequence is first turned into a list by iteration,
  so a string is joined from its characters, a dictionary from its keys and a bytes
  object from its integers.
\<close>

definition join_items :: "pyval list \<Rightarrow> error + pyval" where
  "join_items xs =
     (if list_all is_str xs then Inr (PyStr (concat (map str_of xs)))
      else Inl (TypeError ''sequence item: expected str instance''))"

fun list_join :: "pyval \<Rightarrow> error + pyval" where
  "list_join (PyList xs) = join_items xs"
| "list_join (PyTuple xs) = join_items xs"
| "list_join (PyStr s) = Inr (PyStr s)"
| "list_join (PyDict kvs) = join_items (map fst kvs)"
| "list_join (PyBytes b) = join_items (map (\<lambda>c. PyInt (of_char c)) b)"
| "list_join PyNone = Inl (TypeError ''can only join an iterable'')"
| "list_join (PyInt i) = Inl (TypeError ''can only join an iterable'')"

text \<open>The decimal form that the \<^verbatim>\<open>%d\<close> and \<^verbatim>\<open>%zd\<close> directives print.\<close>

fun show_nat :: "nat \<Rightarrow> string" where
  "show_nat n =
     (if n < 10 then [''0123456789'' ! n]
      else show_nat (n div 10) @ [''0123456789'' ! (n mod 10)])"

declare show_nat.simps [simp del]

definition show_int :: "int \<Rightarrow> string" where
  "show_int i = (if i < 0 then CHR ''-'' # show_nat (nat (- i)) else show_nat (nat i))"

section \<open>The Element type\<close>

text \<open>
  \<^verbatim>\<open>ElementObjectExtra\<close>: the attribute dictionary (or \<^verbatim>\<open>None\<close>) and the child buffer.
  \<open>children\<close> is the buffer the C pointer of that name designates, \<open>allocated\<close> slots
  long; a slot that was never written holds \<open>None\<close>. \<open>static_children\<close> says whether
  the pointer still designates the inline array \<^verbatim>\<open>_children\<close>.
\<close>

record element_extra =
  attrib :: pyval
  len :: int
  allocated :: int
  children :: "objref option list"
  static_children :: bool

text \<open>
  \<^verbatim>\<open>ElementObject\<close>. \<open>text_p\<close> (the field \<^verbatim>\<open>text\<close>) and \<open>tail\<close> are tagged pointers: the object and the
  join flag kept in the low bit. The fields \<^verbatim>\<open>localName\<close>, \<^verbatim>\<open>ns\<close> and
  \<^verbatim>\<open>weakreflist\<close> are read by none of the operations below and are left out.
\<close>

record element =
  tag :: pyval
  text_p :: "pyval \<times> bool"
  tail :: "pyval \<times> bool"
  start_pos :: pyval
  end_pos :: pyval
  extra :: "element_extra option"

definition STATIC_CHILDREN :: int where
  "STATIC_CHILDREN = 4"

definition JOIN_GET :: "pyval \<times> bool \<Rightarrow> bool" where
  "JOIN_GET p = snd p"

definition JOIN_OBJ :: "pyval \<times> bool \<Rightarrow> pyval" where
  "JOIN_OBJ p = fst p"

definition JOIN_SET :: "pyval \<Rightarrow> bool \<Rightarrow> pyval \<times> bool" where
  "JOIN_SET p flag = (p, flag)"

text \<open>A plain object pointer stored in a tagged slot has its low bit clear.\<close>

definition plain :: "pyval \<Rightarrow> pyval \<times> bool" where
  "plain v = (v, False)"

definition is_empty_dict :: "pyval \<Rightarrow> bool" where
  "is_empty_dict obj = (obj = PyDict [])"

definition create_extra :: "element \<Rightarrow> pyval option \<Rightarrow> element" where
  "create_extra self attrib_arg =
     self\<lparr>extra := Some \<lparr>attrib = (case attrib_arg of None \<Rightarrow> PyNone | Some a \<Rightarrow> a),
                          len = 0,
                          allocated = STATIC_CHILDREN,
                          children = replicate (nat STATIC_CHILDREN) None,
                          static_children = True\<rparr>\<rparr>"

text \<open>
  \<^verbatim>\<open>create_new_element\<close> (through \<^verbatim>\<open>feed_new_element\<close>): the extra section is only
  made for a non-empty attribute argument.
\<close>

definition create_new_element :: "pyval \<Rightarrow> pyval option \<Rightarrow> element" where
  "create_new_element tag_arg attrib_arg =
     (let self = \<lparr>tag = tag_arg, text_p = plain PyNone, tail = plain PyNone,
                  start_pos = PyNone, end_pos = PyNone, extra = None\<rparr>
      in case attrib_arg of
           None \<Rightarrow> self
         | Some a \<Rightarrow> if a \<noteq> PyNone \<and> \<not> is_empty_dict a then create_extra self (Some a)
                     else self)"

definition element_add_position :: "element \<Rightarrow> bool \<Rightarrow> int \<Rightarrow> int \<Rightarrow> int \<Rightarrow> element" where
  "element_add_position self is_end line col bytePos =
     (let position = PyTuple [PyInt line, PyInt col, PyInt bytePos]
      in if is_end then self\<lparr>end_pos := position\<rparr> else self\<lparr>start_pos := position\<rparr>)"

text \<open>
  The growth policy of \<^verbatim>\<open>element_resize\<close>, on the requested total size:
  \<^verbatim>\<open>size = (size >> 3) + (size < 9 ? 3 : 6) + size; size = size ? size : 1;\<close>
\<close>

definition new_allocated :: "int \<Rightarrow> int" where
  "new_allocated size0 =
     (let size1 = (size0 div 8) + (if size0 < 9 then 3 else 6) + size0
      in if size1 \<noteq> 0 then size1 else 1)"

text \<open>
  The buffer after growing to \<open>n\<close> slots, keeping the first \<open>keep\<close> old slots:
  \<^verbatim>\<open>PyObject_Realloc\<close> keeps the whole old buffer, \<^verbatim>\<open>PyObject_Malloc\<close> followed by
  \<^verbatim>\<open>memcpy\<close> keeps the \<^verbatim>\<open>length\<close> children of the inline array.
\<close>

definition grown :: "objref option list \<Rightarrow> nat \<Rightarrow> nat \<Rightarrow> objref option list" where
  "grown old keep n = take n (take keep old @ replicate n None)"

definition element_resize :: "element \<Rightarrow> int \<Rightarrow> element" where
  "element_resize self0 extra_n =
     (let self = (if extra self0 = None then create_extra self0 None else self0)
      in case extra self of
           None \<Rightarrow> self
         | Some x \<Rightarrow>
             let size0 = len x + extra_n
             in if size0 > allocated x then
                  let size1 = new_allocated size0;
                      buf = (if \<not> static_children x
                             then grown (children x) (length (children x)) (nat size1)
                             else grown (children x) (nat (len x)) (nat size1))
                  in self\<lparr>extra := Some (x\<lparr>children := buf, allocated := size1,
                                            static_children := False\<rparr>)\<rparr>
                else self)"

text \<open>
  A write into the child buffer. The C code writes through a raw pointer; a write
  outside the buffer does not happen in the states the module builds and leaves the
  model's buffer as it is.
\<close>

definition buf_set :: "objref option list \<Rightarrow> int \<Rightarrow> objref option \<Rightarrow> objref option list" where
  "buf_set buf i v = (if 0 \<le> i \<and> i < int (length buf) then buf[nat i := v] else buf)"

definition buf_get :: "objref option list \<Rightarrow> int \<Rightarrow> objref option" where
  "buf_get buf i = (if 0 \<le> i \<and> i < int (length buf) then buf ! nat i else None)"

definition element_add_subelement :: "element \<Rightarrow> objref \<Rightarrow> element" where
  "element_add_subelement self0 child =
     (let self = element_resize self0 1
      in case extra self of
           None \<Rightarrow> self
         | Some x \<Rightarrow> self\<lparr>extra := Some (x\<lparr>children := buf_set (children x) (len x) (Some child),
                                           len := len x + 1\<rparr>)\<rparr>)"




text \<open>The children of an element, in order (what \<^verbatim>\<open>element_getchildren\<close> lists).\<close>

definition element_getchildren :: "element \<Rightarrow> objref option list" where
  "element_getchildren self =
     (case extra self of None \<Rightarrow> [] | Some x \<Rightarrow> take (nat (len x)) (children x))"

definition element_length :: "element \<Rightarrow> int" where
  "element_length self = (case extra self of None \<Rightarrow> 0 | Some x \<Rightarrow> len x)"

text \<open>
  \<^verbatim>\<open>element_get_attrib\<close> assumes that the extra section exists and creates the missing
  dictionary in it.
\<close>

definition element_get_attrib :: "element \<Rightarrow> (error + pyval) \<times> element" where
  "element_get_attrib self =
     (case extra self of
        None \<Rightarrow> (Inl MemoryFault, self)
      | Some x \<Rightarrow>
          if attrib x = PyNone
          then (Inr (PyDict []), self\<lparr>extra := Some (x\<lparr>attrib := PyDict []\<rparr>)\<rparr>)
          else (Inr (attrib x), self))"

definition element_get_text :: "element \<Rightarrow> (error + pyval) \<times> element" where
  "element_get_text self =
     (let res = text_p self
      in if JOIN_GET res then
           (if PyList_CheckExact (JOIN_OBJ res) then
              (case list_join (JOIN_OBJ res) of
                 Inl e \<Rightarrow> (Inl e, self)
               | Inr joined \<Rightarrow> (Inr joined, self\<lparr>text_p := plain joined\<rparr>))
            else (Inr (JOIN_OBJ res), self))
         else (Inr (fst res), self))"

definition element_get_tail :: "element \<Rightarrow> (error + pyval) \<times> element" where
  "element_get_tail self =
     (let res = tail self
      in if JOIN_GET res then
           (if PyList_CheckExact (JOIN_OBJ res) then
              (case list_join (JOIN_OBJ res) of
                 Inl e \<Rightarrow> (Inl e, self)
               | Inr joined \<Rightarrow> (Inr joined, self\<lparr>tail := plain joined\<rparr>))
            else (Inr (JOIN_OBJ res), self))
         else (Inr (fst res), self))"

subsection \<open>Attribute access\<close>

text \<open>
  \<^verbatim>\<open>PyDict_GetItem\<close> returns NULL, without raising, for a missing key and for an object
  that is not a dictionary. \<^verbatim>\<open>PyDict_Items\<close> and \<^verbatim>\<open>PyDict_Keys\<close> fail with a
  SystemError on an object that is not a dictionary.
\<close>

fun PyDict_GetItem :: "pyval \<Rightarrow> pyval \<Rightarrow> pyval option" where
  "PyDict_GetItem (PyDict kvs) key = map_of kvs key"
| "PyDict_GetItem v key = None"

fun PyDict_Items :: "pyval \<Rightarrow> error + pyval" where
  "PyDict_Items (PyDict kvs) = Inr (PyList (map (\<lambda>kv. PyTuple [fst kv, snd kv]) kvs))"
| "PyDict_Items v = Inl SystemError"

fun PyDict_Keys :: "pyval \<Rightarrow> error + pyval" where
  "PyDict_Keys (PyDict kvs) = Inr (PyList (map fst kvs))"
| "PyDict_Keys v = Inl SystemError"

fun hashable :: "pyval \<Rightarrow> bool" where
  "hashable (PyList xs) = False"
| "hashable (PyDict kvs) = False"
| "hashable (PyTuple xs) = list_all hashable xs"
| "hashable v = True"

fun PyDict_SetItem :: "pyval \<Rightarrow> pyval \<Rightarrow> pyval \<Rightarrow> error + pyval" where
  "PyDict_SetItem (PyDict kvs) key v =
     (if hashable key then Inr (PyDict (AList.update key v kvs))
      else Inl (TypeError ''unhashable type''))"
| "PyDict_SetItem d key v = Inl SystemError"

text \<open>
  The methods return their result together with the element as the call leaves it, so
  that what a call does to the element's storage can be stated.
\<close>

definition element_get :: "element \<Rightarrow> pyval \<Rightarrow> pyval \<Rightarrow> pyval \<times> element" where
  "element_get self key default_value =
     (case extra self of
        None \<Rightarrow> (default_value, self)
      | Some x \<Rightarrow>
          if attrib x = PyNone then (default_value, self)
          else (case PyDict_GetItem (attrib x) key of
                  None \<Rightarrow> (default_value, self)
                | Some v \<Rightarrow> (v, self)))"

definition element_items :: "element \<Rightarrow> (error + pyval) \<times> element" where
  "element_items self =
     (case extra self of
        None \<Rightarrow> (Inr (PyList []), self)
      | Some x \<Rightarrow>
          if attrib x = PyNone then (Inr (PyList []), self)
          else (PyDict_Items (attrib x), self))"

definition element_keys :: "element \<Rightarrow> (error + pyval) \<times> element" where
  "element_keys self =
     (case extra self of
        None \<Rightarrow> (Inr (PyList []), self)
      | Some x \<Rightarrow>
          if attrib x = PyNone then (Inr (PyList []), self)
          else (PyDict_Keys (attrib x), self))"

definition element_set :: "element \<Rightarrow> pyval \<Rightarrow> pyval \<Rightarrow> (error + pyval) \<times> element" where
  "element_set self0 key v =
     (let self1 = (if extra self0 = None then create_extra self0 None else self0)
      in case element_get_attrib self1 of
           (Inl e, self2) \<Rightarrow> (Inl e, self2)
         | (Inr d, self2) \<Rightarrow>
             (case PyDict_SetItem d key v of
                Inl e \<Rightarrow> (Inl e, self2)
              | Inr d' \<Rightarrow>
                  (Inr PyNone,
                   self2\<lparr>extra := map_option (\<lambda>x. x\<lparr>attrib := d'\<rparr>) (extra self2)\<rparr>)))"

text \<open>
  \<^verbatim>\<open>element_getattro\<close>. After \<^verbatim>\<open>tag\<close> and \<^verbatim>\<open>text\<close> the C code asks
  \<^verbatim>\<open>PyObject_GenericGetAttr\<close>, which resolves methods and whatever the type or a
  subclass defines; this lookup is the parameter \<open>generic\<close> (\<open>None\<close> when it fails with
  AttributeError). Only when it fails are the less common attributes tried (of which
  \<^verbatim>\<open>localName\<close> and \<^verbatim>\<open>ns\<close> are not modelled). In the \<^verbatim>\<open>text\<close> branch the C code
  increments the reference count of the result without testing it for NULL.
\<close>

definition element_getattro ::
  "(string \<Rightarrow> pyval option) \<Rightarrow> element \<Rightarrow> string \<Rightarrow> (error + pyval) \<times> element" where
  "element_getattro generic self name =
     (if name = ''tag'' then (Inr (tag self), self)
      else if name = ''text'' then
        (case element_get_text self of
           (Inl e, self1) \<Rightarrow> (Inl MemoryFault, self1)
         | (Inr res, self1) \<Rightarrow> (Inr res, self1))
      else case generic name of
             Some res \<Rightarrow> (Inr res, self)
           | None \<Rightarrow>
               if name = ''tail'' then element_get_tail self
               else if name = ''attrib'' then
                 element_get_attrib (if extra self = None then create_extra self None else self)
               else if name = ''start'' then (Inr (start_pos self), self)
               else if name = ''end'' then (Inr (end_pos self), self)
               else (Inl (AttributeError name), self))"

text \<open>
  \<^verbatim>\<open>element_setattro\<close> stores the given object as it is: the pointer of a Python
  object is aligned, so the slot's join flag is clear after an assignment.
\<close>

definition element_setattro :: "element \<Rightarrow> string \<Rightarrow> pyval \<Rightarrow> error + element" where
  "element_setattro self name v =
     (if name = ''tag'' then Inr (self\<lparr>tag := v\<rparr>)
      else if name = ''text'' then Inr (self\<lparr>text_p := plain v\<rparr>)
      else if name = ''tail'' then Inr (self\<lparr>tail := plain v\<rparr>)
      else if name = ''attrib'' then
        (let self1 = (if extra self = None then create_extra self None else self)
         in Inr (self1\<lparr>extra := map_option (\<lambda>x. x\<lparr>attrib := v\<rparr>) (extra self1)\<rparr>))
      else if name = ''start'' then Inr (self\<lparr>start_pos := v\<rparr>)
      else if name = ''end'' then Inr (self\<lparr>end_pos := v\<rparr>)
      else Inl (AttributeError name))"

section \<open>The tree builder\<close>

text \<open>
  Elements live in a heap, a list indexed by address; a new element takes the next
  address. \<^verbatim>\<open>TreeBuilderObject\<close>: \<open>root\<close> is NULL (\<open>None\<close>) until the first element
  is made; \<open>this\<close> and \<open>last_el\<close> (the field \<^verbatim>\<open>last\<close>) are \<^verbatim>\<open>Py_None\<close> or an element;
  \<open>data\<close> is NULL, a single object or a list; \<open>stack\<close> is the Python list of 20 NULL
  slots made by \<^verbatim>\<open>treebuilder_new\<close>, used up to \<open>index\<close>.

  The model is that of a builder without \<^verbatim>\<open>element_factory\<close>: every node is made by
  \<^verbatim>\<open>create_new_element\<close> and is an exact \<^verbatim>\<open>Element\<close>.
\<close>

type_synonym heap = "element list"

record treebuilder =
  root :: "objref option"
  this :: objref
  last_el :: objref
  data :: "pyval option"
  stack :: "objref option list"
  index :: nat
  events :: "(pyval \<times> objref) list option"
  start_event_obj :: "pyval option"
  end_event_obj :: "pyval option"

definition treebuilder_new :: treebuilder where
  "treebuilder_new =
     \<lparr>root = None, this = Py_None, last_el = Py_None, data = None,
      stack = replicate 20 None, index = 0,
      events = None, start_event_obj = None, end_event_obj = None\<rparr>"

text \<open>
  \<^verbatim>\<open>treebuilder_set_element_text_or_tail\<close>, once for each destination. An exact element
  gets the data object itself, flagged for joining when it is a list. Any other object
  is given the joined string through the attribute protocol; without an element factory
  that object can only be \<^verbatim>\<open>None\<close>, which has no such attribute.
\<close>

definition treebuilder_set_element_text :: "objref \<Rightarrow> pyval \<Rightarrow> heap \<Rightarrow> error + heap" where
  "treebuilder_set_element_text element d h =
     (case element of
        Elem a \<Rightarrow>
          if a < length h
          then Inr (h[a := (h ! a)\<lparr>text_p := JOIN_SET d (PyList_CheckExact d)\<rparr>])
          else Inl MemoryFault
      | Py_None \<Rightarrow>
          (case list_join d of
             Inl e \<Rightarrow> Inl e
           | Inr joined \<Rightarrow> Inl (AttributeError ''text'')))"

definition treebuilder_set_element_tail :: "objref \<Rightarrow> pyval \<Rightarrow> heap \<Rightarrow> error + heap" where
  "treebuilder_set_element_tail element d h =
     (case element of
        Elem a \<Rightarrow>
          if a < length h
          then Inr (h[a := (h ! a)\<lparr>tail := JOIN_SET d (PyList_CheckExact d)\<rparr>])
          else Inl MemoryFault
      | Py_None \<Rightarrow>
          (case list_join d of
             Inl e \<Rightarrow> Inl e
           | Inr joined \<Rightarrow> Inl (AttributeError ''tail'')))"

definition treebuilder_add_subelement :: "objref \<Rightarrow> objref \<Rightarrow> heap \<Rightarrow> error + heap" where
  "treebuilder_add_subelement element child h =
     (case element of
        Elem a \<Rightarrow>
          if a < length h then Inr (h[a := element_add_subelement (h ! a) child])
          else Inl MemoryFault
      | Py_None \<Rightarrow> Inl (AttributeError ''append''))"

text \<open>
  The block that opens both \<^verbatim>\<open>treebuilder_handle_start\<close> and
  \<^verbatim>\<open>treebuilder_handle_end\<close>: pending data goes to the text of \<^verbatim>\<open>last\<close> when
  \<^verbatim>\<open>this == last\<close>, to its tail otherwise, and the collector is reset.
\<close>

definition treebuilder_flush :: "treebuilder \<Rightarrow> heap \<Rightarrow> error + treebuilder \<times> heap" where
  "treebuilder_flush self h =
     (case data self of
        None \<Rightarrow> Inr (self, h)
      | Some d \<Rightarrow>
          (case (if this self = last_el self
                 then treebuilder_set_element_text (last_el self) d h
                 else treebuilder_set_element_tail (last_el self) d h) of
             Inl e \<Rightarrow> Inl e
           | Inr h' \<Rightarrow> Inr (self\<lparr>data := None\<rparr>, h')))"

definition push_stack :: "objref option list \<Rightarrow> nat \<Rightarrow> objref \<Rightarrow> objref option list" where
  "push_stack st i obj = (if i < length st then st[i := Some obj] else st @ [Some obj])"

definition add_event :: "treebuilder \<Rightarrow> pyval option \<Rightarrow> objref \<Rightarrow> treebuilder" where
  "add_event self action_obj node =
     (case action_obj of
        None \<Rightarrow> self
      | Some action \<Rightarrow> self\<lparr>events := map_option (\<lambda>l. l @ [(action, node)]) (events self)\<rparr>)"

text \<open>
  \<^verbatim>\<open>treebuilder_handle_start\<close>. The new node is allocated before it is linked; on the
  error exits it is released again, so the heap is the one left by the flush.
\<close>

definition treebuilder_handle_start ::
  "treebuilder \<Rightarrow> pyval \<Rightarrow> pyval \<Rightarrow> int \<Rightarrow> int \<Rightarrow> int \<Rightarrow> heap
     \<Rightarrow> (error + objref) \<times> treebuilder \<times> heap" where
  "treebuilder_handle_start self0 tag_arg attrib_arg line col pos h0 =
     (case treebuilder_flush self0 h0 of
        Inl e \<Rightarrow> (Inl e, self0, h0)
      | Inr (self, h1) \<Rightarrow>
          let node = Elem (length h1);
              h2 = h1 @ [element_add_position (create_new_element tag_arg (Some attrib_arg))
                           False line col pos];
              this0 = this self
          in case (if this0 \<noteq> Py_None then
                     (case treebuilder_add_subelement this0 node h2 of
                        Inl e \<Rightarrow> Inl e
                      | Inr h3 \<Rightarrow> Inr (self, h3))
                   else if root self \<noteq> None then
                     Inl (ParseError ''multiple elements on top level'' None)
                   else Inr (self\<lparr>root := Some node\<rparr>, h2)) of
               Inl e \<Rightarrow> (Inl e, self, h1)
             | Inr (self1, h3) \<Rightarrow>
                 let self2 = self1\<lparr>stack := push_stack (stack self1) (index self1) this0,
                                   index := index self1 + 1,
                                   this := node,
                                   last_el := node\<rparr>
                 in (Inr node, add_event self2 (start_event_obj self2) node, h3))"

text \<open>
  \<^verbatim>\<open>treebuilder_handle_data\<close>. \<open>sole\<close> is the test \<^verbatim>\<open>Py_REFCNT(self->data) == 1\<close>, which
  the caller's references decide.
\<close>

definition treebuilder_handle_data :: "bool \<Rightarrow> treebuilder \<Rightarrow> pyval \<Rightarrow> treebuilder" where
  "treebuilder_handle_data sole self d =
     (case data self of
        None \<Rightarrow> if last_el self = Py_None then self else self\<lparr>data := Some d\<rparr>
      | Some cur \<Rightarrow>
          (case (cur, d) of
             (PyBytes b, PyBytes [c]) \<Rightarrow>
               if sole then self\<lparr>data := Some (PyBytes (b @ [c]))\<rparr>
               else self\<lparr>data := Some (PyList [cur, d])\<rparr>
           | (PyList xs, _) \<Rightarrow> self\<lparr>data := Some (PyList (xs @ [d]))\<rparr>
           | _ \<Rightarrow> self\<lparr>data := Some (PyList [cur, d])\<rparr>))"

text \<open>
  \<^verbatim>\<open>treebuilder_handle_end\<close>. The tag argument is not used. A stack slot that was never
  written is NULL, and \<^verbatim>\<open>element_add_position\<close> writes into \<^verbatim>\<open>last\<close> without a test:
  both are memory faults in the model.
\<close>

definition treebuilder_handle_end ::
  "treebuilder \<Rightarrow> pyval \<Rightarrow> int \<Rightarrow> int \<Rightarrow> int \<Rightarrow> heap
     \<Rightarrow> (error + objref) \<times> treebuilder \<times> heap" where
  "treebuilder_handle_end self0 tag_arg line col pos h0 =
     (case treebuilder_flush self0 h0 of
        Inl e \<Rightarrow> (Inl e, self0, h0)
      | Inr (self, h1) \<Rightarrow>
          if index self = 0 then (Inl (IndexError ''pop from empty stack''), self, h1)
          else
            let self1 = self\<lparr>index := index self - 1\<rparr>
            in case (if index self1 < length (stack self1) then stack self1 ! index self1
                     else None) of
                 None \<Rightarrow> (Inl MemoryFault, self1, h1)
               | Some item \<Rightarrow>
                   let self2 = self1\<lparr>last_el := this self1, this := item\<rparr>
                   in case last_el self2 of
                        Py_None \<Rightarrow> (Inl MemoryFault, self2, h1)
                      | Elem a \<Rightarrow>
                          if a < length h1 then
                            (Inr (last_el self2),
                             add_event self2 (end_event_obj self2) (last_el self2),
                             h1[a := element_add_position (h1 ! a) True line col pos])
                          else (Inl MemoryFault, self2, h1))"

text \<open>\<^verbatim>\<open>treebuilder_done\<close>: the root, or \<^verbatim>\<open>None\<close> when nothing was started.\<close>

definition treebuilder_done :: "treebuilder \<Rightarrow> objref" where
  "treebuilder_done self = (case root self of Some res \<Rightarrow> res | None \<Rightarrow> Py_None)"

section \<open>Subscript assignment\<close>

text \<open>
  \<^verbatim>\<open>PySlice_GetIndicesEx\<close> of the Python runtime, on the three fields of a slice object
  (\<open>None\<close> for an omitted field) and the length of the sequence: the clipped
  \<open>(start, stop, step, slicelength)\<close>, or ValueError for a zero step.
\<close>

definition clip_index :: "int \<Rightarrow> int \<Rightarrow> int \<Rightarrow> int" where
  "clip_index i step n =
     (let i1 = (if i < 0 then i + n else i);
          i2 = (if i1 < 0 then (if step < 0 then - 1 else 0) else i1)
      in if i2 \<ge> n then (if step < 0 then n - 1 else n) else i2)"

definition PySlice_GetIndicesEx ::
  "int option \<Rightarrow> int option \<Rightarrow> int option \<Rightarrow> int \<Rightarrow> error + int \<times> int \<times> int \<times> int" where
  "PySlice_GetIndicesEx r_start r_stop r_step n =
     (let step = (case r_step of None \<Rightarrow> 1 | Some s \<Rightarrow> s)
      in if step = 0 then Inl (ValueError ''slice step cannot be zero'')
         else
           let defstart = (if step < 0 then n - 1 else 0);
               defstop = (if step < 0 then - 1 else n);
               start = (case r_start of None \<Rightarrow> defstart | Some i \<Rightarrow> clip_index i step n);
               stop = (case r_stop of None \<Rightarrow> defstop | Some i \<Rightarrow> clip_index i step n);
               slicelength =
                 (if (step < 0 \<and> stop \<ge> start) \<or> (step > 0 \<and> start \<ge> stop) then 0
                  else if step < 0 then (stop - start + 1) div step + 1
                  else (stop - start - 1) div step + 1)
           in Inr (start, stop, step, slicelength))"

text \<open>
  The loops of \<^verbatim>\<open>element_setitem\<close> and \<^verbatim>\<open>element_ass_subscr\<close> over the child buffer,
  each as the recursion on its loop variable.
\<close>

function setitem_loop :: "objref option list \<Rightarrow> int \<Rightarrow> int \<Rightarrow> objref option list" where
  "setitem_loop buf i n =
     (if i < n then setitem_loop (buf_set buf i (buf_get buf (i + 1))) (i + 1) n else buf)"
  by pat_completeness auto
termination
  by (relation "measure (\<lambda>(buf, i, n). nat (n - i))") auto

declare setitem_loop.simps [simp del]

function delete_shift :: "objref option list \<Rightarrow> int \<Rightarrow> int \<Rightarrow> int \<Rightarrow> objref option list" where
  "delete_shift buf i n d =
     (if i < n then delete_shift (buf_set buf (i + d) (buf_get buf i)) (i + 1) n d else buf)"
  by pat_completeness auto
termination
  by (relation "measure (\<lambda>(buf, i, n, d). nat (n - i))") auto

declare delete_shift.simps [simp del]

function insert_shift :: "objref option list \<Rightarrow> int \<Rightarrow> int \<Rightarrow> int \<Rightarrow> objref option list" where
  "insert_shift buf i stop d =
     (if i \<ge> stop then insert_shift (buf_set buf (i + d) (buf_get buf i)) (i - 1) stop d
      else buf)"
  by pat_completeness auto
termination
  by (relation "measure (\<lambda>(buf, i, stop, d). nat (i - stop + 1))") auto

declare insert_shift.simps [simp del]

fun replace_slice :: "objref option list \<Rightarrow> int \<Rightarrow> int \<Rightarrow> objref list \<Rightarrow> objref option list" where
  "replace_slice buf cur step [] = buf"
| "replace_slice buf cur step (x # xs) = replace_slice (buf_set buf cur (Some x)) (cur + step) step xs"

text \<open>\<^verbatim>\<open>memmove\<close> of \<open>n\<close> slots inside the buffer: the source is read before any write.\<close>

definition memmove :: "objref option list \<Rightarrow> int \<Rightarrow> int \<Rightarrow> int \<Rightarrow> objref option list" where
  "memmove buf dst src n =
     (let seg = map (\<lambda>k. buf_get buf (src + int k)) [0..<nat n]
      in fold (\<lambda>k b. buf_set b (dst + int k) (seg ! k)) [0..<nat n] buf)"

text \<open>
  The deletion loop runs on an ascending range: the step was made positive before it,
  and \<^verbatim>\<open>PySlice_GetIndicesEx\<close> never returns a zero step.
\<close>

function delete_loop ::
  "objref option list \<Rightarrow> int \<Rightarrow> int \<Rightarrow> int \<Rightarrow> int \<Rightarrow> int \<Rightarrow> objref option list" where
  "delete_loop buf cur i stop step n =
     (if cur < stop \<and> 0 < step then
        let num_moved = (if cur + step \<ge> n then n - cur - 1 else step - 1)
        in delete_loop (memmove buf (cur - i) (cur + 1) num_moved) (cur + step) (i + 1) stop step n
      else buf)"
  by pat_completeness auto
termination
  by (relation "measure (\<lambda>(buf, cur, i, stop, step, n). nat (stop - cur))") auto

declare delete_loop.simps [simp del]

definition element_setitem :: "element \<Rightarrow> int \<Rightarrow> objref option \<Rightarrow> (error + unit) \<times> element" where
  "element_setitem self i item =
     (case extra self of
        None \<Rightarrow> (Inl (IndexError ''child assignment index out of range''), self)
      | Some x \<Rightarrow>
          if i < 0 \<or> i \<ge> len x
          then (Inl (IndexError ''child assignment index out of range''), self)
          else (case item of
                  Some obj \<Rightarrow>
                    (Inr (), self\<lparr>extra := Some (x\<lparr>children := buf_set (children x) i (Some obj)\<rparr>)\<rparr>)
                | None \<Rightarrow>
                    (Inr (), self\<lparr>extra := Some (x\<lparr>len := len x - 1,
                                 children := setitem_loop (children x) i (len x - 1)\<rparr>)\<rparr>)))"

text \<open>
  The arguments of \<^verbatim>\<open>element_ass_subscr\<close>, item and value together. At an index the
  value is the new child, or NULL to delete. At a slice the value is NULL to delete,
  or an object of which the model keeps what \<^verbatim>\<open>PySequence_Fast\<close> makes: its items, or
  the refusal of an object that is not iterable. Any other item is not an index.
\<close>

datatype sequence = Iterable "objref list" | Not_iterable

datatype subscr_args =
    At_index int "objref option"
  | At_slice "int option" "int option" "int option" "sequence option"
  | Not_index

definition delete_slice :: "element_extra \<Rightarrow> int \<Rightarrow> int \<Rightarrow> int \<Rightarrow> int \<Rightarrow> element_extra" where
  "delete_slice x start0 stop0 step0 slicelen =
     (let stop = (if step0 < 0 then start0 + 1 else stop0);
          start = (if step0 < 0 then stop + step0 * (slicelen - 1) - 1 else start0);
          step = (if step0 < 0 then - step0 else step0);
          buf1 = delete_loop (children x) start 0 stop step (len x);
          cur = start + slicelen * step;
          buf2 = (if cur < len x then memmove buf1 (cur - slicelen) cur (len x - cur) else buf1)
      in x\<lparr>children := buf2, len := len x - slicelen\<rparr>)"

definition assign_slice ::
  "element \<Rightarrow> int \<Rightarrow> int \<Rightarrow> int \<Rightarrow> int \<Rightarrow> objref list \<Rightarrow> (error + unit) \<times> element" where
  "assign_slice self0 start stop step slicelen seq =
     (let newlen = int (length seq)
      in if step \<noteq> 1 \<and> newlen \<noteq> slicelen then
           (Inl (ValueError (''attempt to assign sequence of size '' @ show_int newlen
                             @ '' to extended slice of size '' @ show_int slicelen)), self0)
         else
           let self = (if newlen > slicelen then element_resize self0 (newlen - slicelen) else self0)
           in case extra self of
                None \<Rightarrow> (Inl MemoryFault, self)
              | Some x \<Rightarrow>
                  let buf1 = (if newlen < slicelen
                              then delete_shift (children x) stop (len x) (newlen - slicelen)
                              else if newlen > slicelen
                              then insert_shift (children x) (len x - 1) stop (newlen - slicelen)
                              else children x);
                      buf2 = replace_slice buf1 start step seq
                  in (Inr (), self\<lparr>extra := Some (x\<lparr>children := buf2,
                                                      len := len x + (newlen - slicelen)\<rparr>)\<rparr>))"

definition element_ass_subscr :: "element \<Rightarrow> subscr_args \<Rightarrow> (error + unit) \<times> element" where
  "element_ass_subscr self0 args =
     (case args of
        At_index i item \<Rightarrow>
          element_setitem self0 (if i < 0 \<and> extra self0 \<noteq> None then i + element_length self0 else i) item
      | At_slice r_start r_stop r_step v \<Rightarrow>
          let self = (if extra self0 = None then create_extra self0 None else self0)
          in (case PySlice_GetIndicesEx r_start r_stop r_step (element_length self) of
                Inl e \<Rightarrow> (Inl e, self)
              | Inr (start, stop, step, slicelen) \<Rightarrow>
                  (case v of
                     None \<Rightarrow>
                       if slicelen \<le> 0 then (Inr (), self)
                       else (Inr (), self\<lparr>extra := map_option
                               (\<lambda>x. delete_slice x start stop step slicelen) (extra self)\<rparr>)
                   | Some Not_iterable \<Rightarrow> (Inl (TypeError ''expected sequence''), self)
                   | Some (Iterable seq) \<Rightarrow> assign_slice self start stop step slicelen seq))
      | Not_index \<Rightarrow> (Inl (TypeError ''element indices must be integers''), self0))"

section \<open>The parser's handlers\<close>

text \<open>
  \<^verbatim>\<open>XMLParserObject\<close>, as far as the handlers below read it: the target is the built-in
  tree builder or some other object, of which \<open>handle_data\<close> and \<open>handle_end\<close> say
  whether it has the method; \<open>entity\<close> is the substitution dictionary. The remaining
  fields are what the tokenizer reports when a handler asks for its position.
\<close>

datatype target_kind = TreeBuilder_target | Custom_target

record xmlparser =
  target :: target_kind
  entity :: pyval
  handle_data :: bool
  handle_end :: bool
  ErrorLineNumber :: int
  ErrorColumnNumber :: int
  CurrentLineNumber :: int
  CurrentColumnNumber :: int
  CurrentByteIndex :: int

text \<open>
  What the handlers act on: the exception pending in the interpreter
  (\<^verbatim>\<open>PyErr_Occurred\<close>), the tree builder that is the target together with the heap of its
  elements, the cache \<^verbatim>\<open>names\<close> of the parser, and the calls made to the methods of a
  custom target (which are taken to return normally).
\<close>

record parse_state =
  pending :: "error option"
  builder :: treebuilder
  elements :: heap
  names :: "(string \<times> string) list"
  calls :: "(string \<times> pyval) list"





text \<open>
  \<^verbatim>\<open>makeuniversal\<close>: the decoded name, looked up in and added to the cache; a name that
  contains the separator gets the opening brace.
\<close>

definition makeuniversal ::
  "(string \<Rightarrow> string option) \<Rightarrow> string \<Rightarrow> parse_state \<Rightarrow> string option \<times> parse_state" where
  "makeuniversal decode s st =
     (case map_of (names st) s of
        Some v \<Rightarrow> (Some v, st)
      | None \<Rightarrow>
          (case decode (if CHR ''}'' \<in> set s then CHR ''{'' # s else s) of
             None \<Rightarrow> (None, st\<lparr>pending := Some UnicodeDecodeError\<rparr>)
           | Some v \<Rightarrow> (Some v, st\<lparr>names := AList.update s v (names st)\<rparr>)))"

text \<open>
  \<^verbatim>\<open>expat_end_handler\<close>. The result of the call is dropped; an exception raised by the
  tree builder stays pending.
\<close>

definition expat_end_handler ::
  "(string \<Rightarrow> string option) \<Rightarrow> xmlparser \<Rightarrow> string \<Rightarrow> parse_state \<Rightarrow> parse_state" where
  "expat_end_handler decode self tag_in st =
     (if target self = TreeBuilder_target then
        (case treebuilder_handle_end (builder st) PyNone (CurrentLineNumber self)
                (CurrentColumnNumber self) (CurrentByteIndex self) (elements st) of
           (res, b, h) \<Rightarrow>
             st\<lparr>builder := b, elements := h,
                pending := (case res of Inl e \<Rightarrow> Some e | Inr node \<Rightarrow> pending st)\<rparr>)
      else if handle_end self then
        (case makeuniversal decode tag_in st of
           (None, st1) \<Rightarrow> st1
         | (Some t, st1) \<Rightarrow> st1\<lparr>calls := calls st1 @ [(''end'', PyStr t)]\<rparr>)
      else st)"

section \<open>Notions used in the statements\<close>


text \<open>
  An element has no attribute storage when it has no extra section or the section holds
  no dictionary: the test \<^verbatim>\<open>!self->extra || self->extra->attrib == Py_None\<close> of the
  read-only queries.
\<close>

definition no_attrib :: "element \<Rightarrow> bool" where
  "no_attrib self = (case extra self of None \<Rightarrow> True | Some x \<Rightarrow> attrib x = PyNone)"

text \<open>
  The states a tree builder reaches. \<^verbatim>\<open>last\<close> is \<^verbatim>\<open>None\<close> or an element of the heap, and
  data is only collected once there is an element. With an empty stack \<^verbatim>\<open>this\<close> is
  \<^verbatim>\<open>None\<close>; otherwise it is an element, the bottom slot holds the \<^verbatim>\<open>None\<close> that was
  current before the first element, and the slots above it hold the open ancestors.
\<close>

definition valid_ref :: "heap \<Rightarrow> objref \<Rightarrow> bool" where
  "valid_ref h r = (case r of Py_None \<Rightarrow> True | Elem a \<Rightarrow> a < length h)"

definition is_node :: "heap \<Rightarrow> objref option \<Rightarrow> bool" where
  "is_node h s = (case s of Some (Elem a) \<Rightarrow> a < length h | _ \<Rightarrow> False)"

definition builder_ok :: "treebuilder \<Rightarrow> heap \<Rightarrow> bool" where
  "builder_ok b h =
     (valid_ref h (last_el b)
      \<and> (data b = None \<or> last_el b \<noteq> Py_None)
      \<and> index b \<le> length (stack b)
      \<and> (if index b = 0 then this b = Py_None
          else is_node h (Some (this b))
             \<and> take 1 (stack b) = [Some Py_None]
             \<and> list_all (is_node h) (take (index b - 1) (drop 1 (stack b)))))"

text \<open>The calls a builder receives, and a run of them from a given state.\<close>

datatype event = Start pyval pyval int int int | Data bool pyval | End pyval int int int

fun apply_event :: "event \<Rightarrow> treebuilder \<times> heap \<Rightarrow> treebuilder \<times> heap" where
  "apply_event (Start tg at l c p) (b, h) = snd (treebuilder_handle_start b tg at l c p h)"
| "apply_event (Data f d) (b, h) = (treebuilder_handle_data f b d, h)"
| "apply_event (End tg l c p) (b, h) = snd (treebuilder_handle_end b tg l c p h)"



text \<open>
  Examples: a parser with an empty entity dictionary and a state without pending
  exception; a builder inside the open element \<^verbatim>\<open>a\<close> with the pending data
  \<^verbatim>\<open>hi\<close>, and a builder whose root element \<^verbatim>\<open>a\<close> has been closed.
\<close>

definition ex_parser :: xmlparser where
  "ex_parser =
     \<lparr>target = TreeBuilder_target, entity = PyDict [], handle_data = True, handle_end = True,
      ErrorLineNumber = 1, ErrorColumnNumber = 3,
      CurrentLineNumber = 1, CurrentColumnNumber = 3, CurrentByteIndex = 3\<rparr>"

definition ex_state :: parse_state where
  "ex_state = \<lparr>pending = None, builder = treebuilder_new, elements = [], names = [], calls = []\<rparr>"

definition ex_heap :: heap where
  "ex_heap = [create_new_element (PyStr ''a'') None]"

definition ex_open :: treebuilder where
  "ex_open =
     \<lparr>root = Some (Elem 0), this = Elem 0, last_el = Elem 0, data = Some (PyStr ''hi''),
      stack = [Some Py_None], index = 1,
      events = None, start_event_obj = None, end_event_obj = None\<rparr>"

definition ex_closed :: treebuilder where
  "ex_closed =
     \<lparr>root = Some (Elem 0), this = Py_None, last_el = Elem 0, data = None,
      stack = [Some Py_None], index = 0,
      events = None, start_event_obj = None, end_event_obj = None\<rparr>"



text \<open>
  The extra section as the operations above keep it: the length is within the
  capacity, and the capacity is the size of the buffer.
\<close>

definition element_ok :: "element \<Rightarrow> bool" where
  "element_ok self =
     (case extra self of
        None \<Rightarrow> True
      | Some x \<Rightarrow> 0 \<le> len x \<and> len x \<le> allocated x \<and> allocated x = int (length (children x)))"

text \<open>An example element with the five children at the addresses 10 to 14.\<close>

definition ex_elem :: element where
  "ex_elem =
     \<lparr>tag = PyStr ''a'', text_p = (PyNone, False), tail = (PyNone, False),
      start_pos = PyNone, end_pos = PyNone,
      extra = Some \<lparr>attrib = PyNone, len = 5, allocated = 8,
                     children = [Some (Elem 10), Some (Elem 11), Some (Elem 12),
                                 Some (Elem 13), Some (Elem 14), None, None, None],
                     static_children = False\<rparr>\<rparr>"

section \<open>Properties\<close>

lemma join_items_strs: "join_items (map PyStr ss) = Inr (PyStr (concat ss))"
proof -
  have "list_all is_str (map PyStr ss)" by (induction ss) simp_all
  moreover have "map str_of (map PyStr ss) = ss" by (induction ss) simp_all
  ultimately show ?thesis by (simp add: join_items_def)
qed








text \<open>
  C8. On an element without attribute storage, \<^verbatim>\<open>get\<close> returns the default and
  \<^verbatim>\<open>items\<close> and \<^verbatim>\<open>keys\<close> return the empty list, and each leaves the element as it was,
  so still without attribute storage; \<^verbatim>\<open>set\<close> leaves it with attribute storage.
\<close>

theorem readonly_queries_do_not_allocate:
  assumes "no_attrib self"
  shows "element_get self key d = (d, self)
       \<and> element_items self = (Inr (PyList []), self)
       \<and> element_keys self = (Inr (PyList []), self)
       \<and> \<not> no_attrib (snd (element_set self key v))"
  using assms
  by (auto simp: no_attrib_def element_get_def element_items_def element_keys_def
        element_set_def element_get_attrib_def create_extra_def Let_def
      split: option.splits sum.splits if_splits prod.splits)

theorem readonly_queries_do_not_allocate_witness:
  "no_attrib (create_new_element (PyStr ''a'') None)
   \<and> element_get (create_new_element (PyStr ''a'') None) (PyStr ''k'') (PyInt 0)
       = (PyInt 0, create_new_element (PyStr ''a'') None)
   \<and> element_items (create_new_element (PyStr ''a'') None)
       = (Inr (PyList []), create_new_element (PyStr ''a'') None)
   \<and> element_keys (create_new_element (PyStr ''a'') None)
       = (Inr (PyList []), create_new_element (PyStr ''a'') None)
   \<and> \<not> no_attrib (snd (element_set (create_new_element (PyStr ''a'') None)
                          (PyStr ''k'') (PyStr ''v'')))"
proof -
  have h: "no_attrib (create_new_element (PyStr ''a'') None)"
    by (simp add: no_attrib_def create_new_element_def)
  show ?thesis
    using h readonly_queries_do_not_allocate [OF h, of "PyStr ''k''" "PyInt 0" "PyStr ''v''"]
    by simp
qed

text \<open>
  C9. Reading the attribute \<^verbatim>\<open>attrib\<close> of an element without extra section (the generic
  lookup knowing no attribute of that name) returns an empty dictionary and leaves the
  element with a fresh extra section holding that dictionary.
\<close>

theorem attrib_read_materializes:
  assumes "extra self = None" and "generic ''attrib'' = None"
  shows "element_getattro generic self ''attrib''
           = (Inr (PyDict []),
              self\<lparr>extra := Some \<lparr>attrib = PyDict [], len = 0, allocated = STATIC_CHILDREN,
                                  children = replicate (nat STATIC_CHILDREN) None,
                                  static_children = True\<rparr>\<rparr>)
       \<and> \<not> no_attrib (snd (element_getattro generic self ''attrib''))"
  using assms
  by (auto simp: element_getattro_def element_get_attrib_def create_extra_def no_attrib_def)

theorem attrib_read_materializes_witness:
  "extra (create_new_element (PyStr ''a'') None) = None
   \<and> no_attrib (create_new_element (PyStr ''a'') None)
   \<and> \<not> no_attrib (snd (element_getattro (\<lambda>name. None)
                          (create_new_element (PyStr ''a'') None) ''attrib''))"
proof -
  have h: "extra (create_new_element (PyStr ''a'') None) = None"
    by (simp add: create_new_element_def)
  have g: "(\<lambda>name. None :: pyval option) ''attrib'' = None" by simp
  show ?thesis
    using h attrib_read_materializes [OF h g]
    by (simp add: no_attrib_def)
qed

subsection \<open>The states of the tree builder\<close>

text \<open>
  \<open>builder_ok\<close> holds of the new builder and is kept by every start, data and end
  call, whether the call succeeds or raises; so it holds after every run of calls.
  In such a state the flush at the head of a start or end call succeeds.
\<close>

lemma text_add_subelement [simp]:
  "text_p (element_add_subelement e c) = text_p e" "tail (element_add_subelement e c) = tail e"
  by (simp_all add: element_add_subelement_def element_resize_def create_extra_def Let_def split: option.splits)

lemma text_add_position [simp]:
  "text_p (element_add_position e f l c p) = text_p e" "tail (element_add_position e f l c p) = tail e"
  by (simp_all add: element_add_position_def Let_def)

lemma flush_none: "data b = None \<Longrightarrow> treebuilder_flush b h = Inr (b, h)"
  by (simp add: treebuilder_flush_def)

lemma flush_some:
  "data b = Some d \<Longrightarrow> last_el b = Elem a \<Longrightarrow> a < length h \<Longrightarrow>
   treebuilder_flush b h =
     Inr (b\<lparr>data := None\<rparr>,
          h[a := (if this b = Elem a then (h ! a)\<lparr>text_p := JOIN_SET d (PyList_CheckExact d)\<rparr>
                  else (h ! a)\<lparr>tail := JOIN_SET d (PyList_CheckExact d)\<rparr>)])"
  by (simp add: treebuilder_flush_def treebuilder_set_element_text_def treebuilder_set_element_tail_def)

lemma start_after_flush:
  "treebuilder_flush b h = Inr (b1, h1) \<Longrightarrow> a < length h1 \<Longrightarrow>
   (case treebuilder_handle_start b tg at l c p h of (r, b', h') \<Rightarrow>
      data b' = data b1 \<and> a < length h' \<and> text_p (h' ! a) = text_p (h1 ! a) \<and> tail (h' ! a) = tail (h1 ! a))"
  by (auto simp: treebuilder_handle_start_def treebuilder_add_subelement_def Let_def add_event_def nth_append nth_list_update
      split: sum.splits option.splits objref.splits if_splits)

lemma end_after_flush:
  "treebuilder_flush b h = Inr (b1, h1) \<Longrightarrow> a < length h1 \<Longrightarrow>
   (case treebuilder_handle_end b tg l c p h of (r, b', h') \<Rightarrow>
      data b' = data b1 \<and> a < length h' \<and> text_p (h' ! a) = text_p (h1 ! a) \<and> tail (h' ! a) = tail (h1 ! a))"
  by (auto simp: treebuilder_handle_end_def Let_def add_event_def nth_list_update
      split: sum.splits option.splits objref.splits if_splits)

lemma is_node_mono: "is_node h s \<Longrightarrow> length h \<le> length h' \<Longrightarrow> is_node h' s"
  by (auto simp: is_node_def split: option.splits objref.splits)

lemma valid_ref_mono: "valid_ref h r \<Longrightarrow> length h \<le> length h' \<Longrightarrow> valid_ref h' r"
  by (auto simp: valid_ref_def split: objref.splits)

lemma list_all_is_node_mono:
  "list_all (is_node h) xs \<Longrightarrow> length h \<le> length h' \<Longrightarrow> list_all (is_node h') xs"
  by (induction xs) (auto intro: is_node_mono)

lemma builder_ok_heap:
  "builder_ok b h \<Longrightarrow> length h \<le> length h' \<Longrightarrow> builder_ok b h'"
  unfolding builder_ok_def
  by (auto intro: valid_ref_mono is_node_mono list_all_is_node_mono split: if_splits)

lemma builder_ok_new: "builder_ok treebuilder_new h"
  by (simp add: builder_ok_def treebuilder_new_def valid_ref_def)

lemma builder_ok_data: "builder_ok b h \<Longrightarrow> builder_ok (treebuilder_handle_data f b d) h"
  by (auto simp: builder_ok_def treebuilder_handle_data_def split: option.splits pyval.splits list.splits)

lemma map_update_same: "f x = f (h ! a) \<Longrightarrow> map f (h[a := x]) = map f h"
  by (metis list_update_id map_update)

lemma flush_ok:
  assumes "builder_ok b h"
  shows "\<exists>h1. treebuilder_flush b h = Inr (b\<lparr>data := None\<rparr>, h1) \<and> length h1 = length h
            \<and> map element_getchildren h1 = map element_getchildren h"
proof (cases "data b")
  case None
  then have "b\<lparr>data := None\<rparr> = b" by simp
  with None show ?thesis by (simp add: flush_none)
next
  case (Some d)
  with assms obtain a where a: "last_el b = Elem a" "a < length h"
    by (cases "last_el b") (auto simp: builder_ok_def valid_ref_def)
  show ?thesis
    using flush_some [OF Some a]
    by (simp add: map_update_same element_getchildren_def)
qed

lemma builder_ok_flushed: "builder_ok b h \<Longrightarrow> length h1 = length h \<Longrightarrow> builder_ok (b\<lparr>data := None\<rparr>) h1"
  unfolding builder_ok_def
  by (auto intro: valid_ref_mono is_node_mono list_all_is_node_mono split: if_splits)

lemma push_first:
  "take 1 (push_stack st 0 r) = [Some r]"
  by (cases st) (simp_all add: push_stack_def)

lemma push_length: "k \<le> length st \<Longrightarrow> Suc k \<le> length (push_stack st k r)"
  by (simp add: push_stack_def)

lemma push_later:
  assumes "0 < k" "k \<le> length st"
  shows "take 1 (push_stack st k r) = take 1 st"
    and "take k (drop 1 (push_stack st k r)) = take (k - 1) (drop 1 st) @ [Some r]"
proof -
  show "take 1 (push_stack st k r) = take 1 st"
    using assms by (cases st) (auto simp: push_stack_def split: nat.splits)
  show "take k (drop 1 (push_stack st k r)) = take (k - 1) (drop 1 st) @ [Some r]"
  proof (cases "k < length st")
    case True
    then have "push_stack st k r = take k st @ Some r # drop (Suc k) st"
      by (simp add: push_stack_def upd_conv_take_nth_drop)
    with assms True show ?thesis by (cases k) (simp_all add: drop_take min_def)
  next
    case False
    with assms have "k = length st" by simp
    then show ?thesis using assms by (cases st) (simp_all add: push_stack_def)
  qed
qed

lemma builder_ok_start:
  assumes "builder_ok b h"
  shows "case treebuilder_handle_start b tg at l c p h of (r, b', h') \<Rightarrow> builder_ok b' h'"
proof -
  from flush_ok [OF assms] obtain h1 where
    fl: "treebuilder_flush b h = Inr (b\<lparr>data := None\<rparr>, h1)" and len: "length h1 = length h"
    by blast
  have ok1: "builder_ok (b\<lparr>data := None\<rparr>) h1" using assms len by (rule builder_ok_flushed)
  show ?thesis
  proof (cases "index b = 0")
    case True
    with ok1 have th: "this b = Py_None" by (simp add: builder_ok_def)
    show ?thesis
      using ok1 True th fl
      by (auto simp: treebuilder_handle_start_def Let_def add_event_def builder_ok_def valid_ref_def
            is_node_def push_first [simplified] push_length
          split: option.splits)
  next
    case False
    with ok1 obtain t where t: "this b = Elem t" "t < length h1"
      by (cases "this b") (auto simp: builder_ok_def is_node_def)
    from False ok1 have st: "index b \<le> length (stack b)" "take 1 (stack b) = [Some Py_None]"
      "list_all (is_node h1) (take (index b - 1) (drop 1 (stack b)))"
      by (simp_all add: builder_ok_def)
    from False have pos: "0 < index b" by simp
    let ?h3 = "(h1 @ [element_add_position (create_new_element tg (Some at)) False l c p])
                 [t := element_add_subelement (h1 ! t) (Elem (length h1))]"
    have la: "list_all (is_node ?h3) (take (index b - 1) (drop 1 (stack b)) @ [Some (Elem t)])"
      using st(3) t by (auto simp: is_node_def intro: list_all_is_node_mono)
    have res: "treebuilder_handle_start b tg at l c p h =
      (Inr (Elem (length h1)),
       add_event (b\<lparr>data := None, stack := push_stack (stack b) (index b) (Elem t),
                    index := index b + 1, this := Elem (length h1), last_el := Elem (length h1)\<rparr>)
                 (start_event_obj b) (Elem (length h1)), ?h3)"
      using fl t by (simp add: treebuilder_handle_start_def Let_def treebuilder_add_subelement_def nth_append)
    show ?thesis
      using la st pos
      by (simp add: res add_event_def builder_ok_def valid_ref_def is_node_def
            push_later [OF pos st(1), simplified] push_length split: option.splits)
  qed
qed

lemma stack_top:
  assumes "builder_ok b h" "0 < index b"
  shows "\<exists>item. stack b ! (index b - 1) = Some item \<and> index b - 1 < length (stack b)
           \<and> (if index b = 1 then item = Py_None else is_node h (Some item))"
proof -
  from assms have st: "index b \<le> length (stack b)" "take 1 (stack b) = [Some Py_None]"
      "list_all (is_node h) (take (index b - 1) (drop 1 (stack b)))"
    by (simp_all add: builder_ok_def)
  show ?thesis
  proof (cases "index b = 1")
    case True
    from st(2) have "stack b ! 0 = Some Py_None"
      by (cases "stack b") simp_all
    with True st(1) show ?thesis by (cases "stack b") simp_all
  next
    case False
    with assms(2) have k: "index b - 2 < length (take (index b - 1) (drop 1 (stack b)))"
      using st(1) by simp
    have "Suc (index b - 2) = index b - 1" using False assms(2) by simp
    then have "take (index b - 1) (drop 1 (stack b)) ! (index b - 2) = stack b ! (index b - 1)"
      using False assms(2) st(1) by simp
    moreover from st(3) k have "is_node h (take (index b - 1) (drop 1 (stack b)) ! (index b - 2))"
      by (simp only: list_all_length)
    ultimately have n: "is_node h (stack b ! (index b - 1))" by simp
    then obtain item where "stack b ! (index b - 1) = Some item"
      by (cases "stack b ! (index b - 1)") (auto simp: is_node_def)
    with n False assms(2) st(1) show ?thesis by simp
  qed
qed

lemma end_result:
  assumes "builder_ok b h" "0 < index b"
  shows "\<exists>t item h1. this b = Elem t \<and> t < length h \<and> stack b ! (index b - 1) = Some item
           \<and> (if index b = 1 then item = Py_None else is_node h (Some item))
           \<and> treebuilder_flush b h = Inr (b\<lparr>data := None\<rparr>, h1) \<and> length h1 = length h
           \<and> map element_getchildren h1 = map element_getchildren h
           \<and> treebuilder_handle_end b tg l c p h =
               (Inr (Elem t),
                add_event (b\<lparr>data := None, index := index b - 1, last_el := Elem t, this := item\<rparr>)
                          (end_event_obj b) (Elem t),
                h1[t := element_add_position (h1 ! t) True l c p])"
proof -
  from flush_ok [OF assms(1)] obtain h1 where
    fl: "treebuilder_flush b h = Inr (b\<lparr>data := None\<rparr>, h1)" and len: "length h1 = length h"
    and ch: "map element_getchildren h1 = map element_getchildren h"
    by blast
  from assms obtain t where t: "this b = Elem t" "t < length h"
    by (cases "this b") (auto simp: builder_ok_def is_node_def)
  from stack_top [OF assms] obtain item where
    it: "stack b ! (index b - 1) = Some item" "index b - 1 < length (stack b)"
        "if index b = 1 then item = Py_None else is_node h (Some item)"
    by blast
  have "treebuilder_handle_end b tg l c p h =
               (Inr (Elem t),
                add_event (b\<lparr>data := None, index := index b - 1, last_el := Elem t, this := item\<rparr>)
                          (end_event_obj b) (Elem t),
                h1[t := element_add_position (h1 ! t) True l c p])"
    using fl t it(1,2) assms(2) len
    by (simp add: treebuilder_handle_end_def Let_def)
  with fl len ch t it show ?thesis by blast
qed

lemma builder_ok_end:
  assumes "builder_ok b h"
  shows "case treebuilder_handle_end b tg l c p h of (r, b', h') \<Rightarrow> builder_ok b' h'"
proof (cases "index b = 0")
  case True
  from flush_ok [OF assms] obtain h1 where
    fl: "treebuilder_flush b h = Inr (b\<lparr>data := None\<rparr>, h1)" and len: "length h1 = length h"
    by blast
  have "builder_ok (b\<lparr>data := None\<rparr>) h1" using assms len by (rule builder_ok_flushed)
  with True fl show ?thesis by (simp add: treebuilder_handle_end_def)
next
  case False
  then have pos: "0 < index b" by simp
  from end_result [OF assms pos, of tg l c p] obtain t item h1 where
    r: "this b = Elem t" "t < length h" "stack b ! (index b - 1) = Some item"
       "if index b = 1 then item = Py_None else is_node h (Some item)"
       "length h1 = length h"
       "treebuilder_handle_end b tg l c p h =
               (Inr (Elem t),
                add_event (b\<lparr>data := None, index := index b - 1, last_el := Elem t, this := item\<rparr>)
                          (end_event_obj b) (Elem t),
                h1[t := element_add_position (h1 ! t) True l c p])"
    by blast
  from assms pos have st: "index b \<le> length (stack b)" "take 1 (stack b) = [Some Py_None]"
      "list_all (is_node h) (take (index b - 1) (drop 1 (stack b)))"
    by (simp_all add: builder_ok_def)
  have "take (index b - 1 - 1) (drop 1 (stack b)) = take (index b - 1 - 1) (take (index b - 1) (drop 1 (stack b)))"
    by (simp add: min_def)
  then have "list_all (is_node h) (take (index b - 1 - 1) (drop 1 (stack b)))"
    using st(3) by (metis append_take_drop_id list_all_append)
  then show ?thesis
    using r st pos
    by (auto simp: add_event_def builder_ok_def valid_ref_def is_node_def
          intro: list_all_is_node_mono split: option.splits if_splits objref.splits)
qed

lemma builder_ok_step: "builder_ok b h \<Longrightarrow> builder_ok (fst (apply_event ev (b, h))) (snd (apply_event ev (b, h)))"
proof (cases ev)
  case (Start tg at l c p)
  assume "builder_ok b h"
  from builder_ok_start [OF this, of tg at l c p] show ?thesis
    using Start by (simp split: prod.splits)
next
  case (Data f d)
  assume "builder_ok b h"
  then show ?thesis using Data by (simp add: builder_ok_data)
next
  case (End tg l c p)
  assume "builder_ok b h"
  from builder_ok_end [OF this, of tg l c p] show ?thesis
    using End by (simp split: prod.splits)
qed

lemma builder_ok_run:
  "builder_ok (fst s) (snd s) \<Longrightarrow> builder_ok (fst (fold apply_event evs s)) (snd (fold apply_event evs s))"
proof (induction evs arbitrary: s)
  case Nil
  then show ?case by simp
next
  case (Cons ev evs)
  obtain b h where s: "s = (b, h)" by (cases s)
  with Cons.prems have "builder_ok (fst (apply_event ev s)) (snd (apply_event ev s))"
    using builder_ok_step [of b h ev] by simp
  from Cons.IH [OF this] show ?case by simp
qed

lemma builder_ok_reached:
  "builder_ok (fst (fold apply_event evs (treebuilder_new, [])))
              (snd (fold apply_event evs (treebuilder_new, [])))"
  using builder_ok_run [of "(treebuilder_new, [])" evs] by (simp add: builder_ok_new)

lemma ex_open_ok: "builder_ok ex_open ex_heap"
  by (simp add: builder_ok_def ex_open_def ex_heap_def valid_ref_def is_node_def)

lemma ex_closed_ok: "builder_ok ex_closed ex_heap"
  by (simp add: builder_ok_def ex_closed_def ex_heap_def valid_ref_def)

subsection \<open>The flush rule\<close>

text \<open>
  C1. In every state the builder reaches with pending data \<open>d\<close>, \<^verbatim>\<open>last\<close> is an element,
  and both a start and an end transition store \<open>d\<close> (flagged for joining when it is a
  list) in the text of \<^verbatim>\<open>last\<close> when \<^verbatim>\<open>this == last\<close>, and in its tail otherwise,
  leave the other of the two fields as it was, and clear the collector.
\<close>

theorem flush_rule:
  assumes "builder_ok b h" and "data b = Some d"
  shows "case last_el b of
           Py_None \<Rightarrow> False
         | Elem a \<Rightarrow> a < length h \<and>
            (case treebuilder_handle_start b tg at l c p h of (r, b', h') \<Rightarrow>
               data b' = None \<and> a < length h' \<and>
               (if this b = last_el b
                then text_p (h' ! a) = JOIN_SET d (PyList_CheckExact d) \<and> tail (h' ! a) = tail (h ! a)
                else tail (h' ! a) = JOIN_SET d (PyList_CheckExact d) \<and> text_p (h' ! a) = text_p (h ! a)))
          \<and> (case treebuilder_handle_end b tg' l' c' p' h of (r, b', h') \<Rightarrow>
               data b' = None \<and> a < length h' \<and>
               (if this b = last_el b
                then text_p (h' ! a) = JOIN_SET d (PyList_CheckExact d) \<and> tail (h' ! a) = tail (h ! a)
                else tail (h' ! a) = JOIN_SET d (PyList_CheckExact d) \<and> text_p (h' ! a) = text_p (h ! a)))"
proof -
  from assms obtain a where a: "last_el b = Elem a" "a < length h"
    by (cases "last_el b") (auto simp: builder_ok_def valid_ref_def)
  let ?h1 = "h[a := (if this b = Elem a then (h ! a)\<lparr>text_p := JOIN_SET d (PyList_CheckExact d)\<rparr>
                  else (h ! a)\<lparr>tail := JOIN_SET d (PyList_CheckExact d)\<rparr>)]"
  have fl: "treebuilder_flush b h = Inr (b\<lparr>data := None\<rparr>, ?h1)"
    using assms(2) a by (rule flush_some)
  have len: "a < length ?h1" using a by simp
  have s: "case treebuilder_handle_start b tg at l c p h of (r, b', h') \<Rightarrow>
      data b' = data (b\<lparr>data := None\<rparr>) \<and> a < length h' \<and> text_p (h' ! a) = text_p (?h1 ! a) \<and> tail (h' ! a) = tail (?h1 ! a)"
    using fl len by (rule start_after_flush)
  have e: "case treebuilder_handle_end b tg' l' c' p' h of (r, b', h') \<Rightarrow>
      data b' = data (b\<lparr>data := None\<rparr>) \<and> a < length h' \<and> text_p (h' ! a) = text_p (?h1 ! a) \<and> tail (h' ! a) = tail (?h1 ! a)"
    using fl len by (rule end_after_flush)
  show ?thesis using a s e by (auto split: prod.splits)
qed

theorem flush_rule_witness:
  "builder_ok ex_open ex_heap \<and> data ex_open = Some (PyStr ''hi'')
   \<and> data (fst (snd (treebuilder_handle_end ex_open PyNone 1 2 3 ex_heap))) = None
   \<and> text_p (snd (snd (treebuilder_handle_end ex_open PyNone 1 2 3 ex_heap)) ! 0)
       = (PyStr ''hi'', False)
   \<and> text_p (snd (snd (treebuilder_handle_start ex_open (PyStr ''b'') PyNone 1 2 3 ex_heap)) ! 0)
       = (PyStr ''hi'', False)"
proof -
  have d: "data ex_open = Some (PyStr ''hi'')" by (simp add: ex_open_def)
  have l: "last_el ex_open = Elem 0" "this ex_open = Elem 0" by (simp_all add: ex_open_def)
  show ?thesis
    using flush_rule [OF ex_open_ok d, of "PyStr ''b''" PyNone 1 2 3 PyNone 1 2 3]
    by (simp add: ex_open_ok d l JOIN_SET_def split: prod.splits)
qed

subsection \<open>Multiple roots\<close>

text \<open>
  C5. In a state the builder reaches with no element open (\<^verbatim>\<open>this\<close> is \<^verbatim>\<open>None\<close>): when
  a root has been recorded, a start call fails with the ParseError
  \<^verbatim>\<open>multiple elements on top level\<close>, the heap keeps its size, no element gets a
  child, and root, stack and index stay as they were; when no root has been recorded,
  the call succeeds and records the new element as root.
\<close>

theorem multiple_roots:
  assumes "builder_ok b h" and "this b = Py_None"
  shows "(root b \<noteq> None \<longrightarrow>
           (case treebuilder_handle_start b tg at l c p h of (r, b', h') \<Rightarrow>
              r = Inl (ParseError ''multiple elements on top level'' None)
            \<and> length h' = length h
            \<and> map element_getchildren h' = map element_getchildren h
            \<and> root b' = root b \<and> this b' = Py_None
            \<and> stack b' = stack b \<and> index b' = index b))
       \<and> (root b = None \<longrightarrow>
           (case treebuilder_handle_start b tg at l c p h of (r, b', h') \<Rightarrow>
              r = Inr (Elem (length h))
            \<and> root b' = Some (Elem (length h)) \<and> this b' = Elem (length h)
            \<and> length h' = Suc (length h)
            \<and> tag (h' ! length h) = tg))"
proof -
  from flush_ok [OF assms(1)] obtain h1 where
    fl: "treebuilder_flush b h = Inr (b\<lparr>data := None\<rparr>, h1)" and len: "length h1 = length h"
    and ch: "map element_getchildren h1 = map element_getchildren h"
    by blast
  show ?thesis
    using fl len ch assms(2)
    by (auto simp: treebuilder_handle_start_def Let_def add_event_def element_add_position_def
          create_new_element_def create_extra_def nth_append split: option.splits)
qed

theorem multiple_roots_witness:
  "builder_ok ex_closed ex_heap \<and> this ex_closed = Py_None \<and> root ex_closed \<noteq> None
   \<and> fst (treebuilder_handle_start ex_closed (PyStr ''b'') PyNone 1 2 3 ex_heap)
       = Inl (ParseError ''multiple elements on top level'' None)
   \<and> builder_ok treebuilder_new [] \<and> this treebuilder_new = Py_None
   \<and> root treebuilder_new = None
   \<and> root (fst (snd (treebuilder_handle_start treebuilder_new (PyStr ''a'') PyNone 1 2 3 [])))
       = Some (Elem 0)"
proof -
  have t: "this ex_closed = Py_None" "root ex_closed \<noteq> None" by (simp_all add: ex_closed_def)
  have n: "this treebuilder_new = Py_None" "root treebuilder_new = None"
    by (simp_all add: treebuilder_new_def)
  show ?thesis
    using multiple_roots [OF ex_closed_ok t(1), of "PyStr ''b''" PyNone 1 2 3]
          multiple_roots [OF builder_ok_new n(1), of "[]" "PyStr ''a''" PyNone 1 2 3]
    by (simp add: ex_closed_ok builder_ok_new t n split: prod.splits)
qed

subsection \<open>The end tag\<close>

text \<open>
  C10. \<^verbatim>\<open>treebuilder_handle_end\<close> gives the same result for every tag argument. In a
  state the builder reaches with a non-empty stack it returns the open element
  \<^verbatim>\<open>this\<close>, makes it \<^verbatim>\<open>last\<close> and pops the stack into \<^verbatim>\<open>this\<close>. The parser's
  \<^verbatim>\<open>expat_end_handler\<close>, when the target is the tree builder, performs this call with
  \<^verbatim>\<open>None\<close> as the tag, whatever tag the tokenizer reports.
\<close>

theorem end_ignores_tag:
  assumes "builder_ok b h" and "0 < index b"
  shows "treebuilder_handle_end b t l c p h = treebuilder_handle_end b PyNone l c p h
       \<and> (case treebuilder_handle_end b t l c p h of (r, b', h') \<Rightarrow>
            r = Inr (this b) \<and> last_el b' = this b \<and> index b' = index b - 1
          \<and> Some (this b') = stack b ! (index b - 1))
       \<and> (target prs = TreeBuilder_target \<longrightarrow>
            (case treebuilder_handle_end b PyNone (CurrentLineNumber prs) (CurrentColumnNumber prs)
                    (CurrentByteIndex prs) h of (r, b', h') \<Rightarrow>
               expat_end_handler decode prs tag_in (st\<lparr>builder := b, elements := h\<rparr>)
                 = st\<lparr>builder := b', elements := h'\<rparr>))"
proof -
  have 1: "treebuilder_handle_end b t l c p h = treebuilder_handle_end b PyNone l c p h"
    by (simp add: treebuilder_handle_end_def)
  from end_result [OF assms, of t l c p]
  have 2: "case treebuilder_handle_end b t l c p h of (r, b', h') \<Rightarrow>
            r = Inr (this b) \<and> last_el b' = this b \<and> index b' = index b - 1
          \<and> Some (this b') = stack b ! (index b - 1)"
    by (auto simp: add_event_def split: option.splits)
  from end_result [OF assms, of PyNone "CurrentLineNumber prs" "CurrentColumnNumber prs" "CurrentByteIndex prs"]
  have 3: "target prs = TreeBuilder_target \<longrightarrow>
            (case treebuilder_handle_end b PyNone (CurrentLineNumber prs) (CurrentColumnNumber prs)
                    (CurrentByteIndex prs) h of (r, b', h') \<Rightarrow>
               expat_end_handler decode prs tag_in (st\<lparr>builder := b, elements := h\<rparr>)
                 = st\<lparr>builder := b', elements := h'\<rparr>)"
    by (auto simp: expat_end_handler_def)
  from 1 2 3 show ?thesis by blast
qed

theorem end_ignores_tag_witness:
  "builder_ok ex_open ex_heap \<and> 0 < index ex_open
   \<and> treebuilder_handle_end ex_open (PyStr ''wrong'') 1 2 3 ex_heap
       = treebuilder_handle_end ex_open PyNone 1 2 3 ex_heap
   \<and> fst (treebuilder_handle_end ex_open (PyStr ''wrong'') 1 2 3 ex_heap) = Inr (Elem 0)"
proof -
  have i: "0 < index ex_open" by (simp add: ex_open_def)
  have t: "this ex_open = Elem 0" by (simp add: ex_open_def)
  show ?thesis
    using end_ignores_tag [OF ex_open_ok i, where t = "PyStr ''wrong''" and l = 1 and c = 2
            and p = 3 and prs = ex_parser and decode = Some and tag_in = "''a''"
            and st = ex_state]
    by (simp add: ex_open_ok i t split: prod.splits)
qed

subsection \<open>Joining text\<close>














text \<open>
  C2. A fragment list of strings that the tree builder stores as text (or tail) is
  flagged for joining: the first read returns the concatenation of the fragments and
  leaves that string in the slot, so that the next read returns it again and changes
  nothing. A value assigned to \<^verbatim>\<open>text\<close> or \<^verbatim>\<open>tail\<close> through \<^verbatim>\<open>element_setattro\<close>, a
  list included, is returned by a read as it is, and the read changes nothing.
\<close>

theorem join_pending_text:
  "(a < length h \<longrightarrow>
      (case treebuilder_set_element_text (Elem a) (PyList (map PyStr ss)) h of
         Inl e \<Rightarrow> False
       | Inr h' \<Rightarrow>
           element_get_text (h' ! a)
             = (Inr (PyStr (concat ss)), (h' ! a)\<lparr>text_p := plain (PyStr (concat ss))\<rparr>)
         \<and> element_get_text ((h' ! a)\<lparr>text_p := plain (PyStr (concat ss))\<rparr>)
             = (Inr (PyStr (concat ss)), (h' ! a)\<lparr>text_p := plain (PyStr (concat ss))\<rparr>)))
   \<and> (a < length h \<longrightarrow>
      (case treebuilder_set_element_tail (Elem a) (PyList (map PyStr ss)) h of
         Inl e \<Rightarrow> False
       | Inr h' \<Rightarrow>
           element_get_tail (h' ! a)
             = (Inr (PyStr (concat ss)), (h' ! a)\<lparr>tail := plain (PyStr (concat ss))\<rparr>)
         \<and> element_get_tail ((h' ! a)\<lparr>tail := plain (PyStr (concat ss))\<rparr>)
             = (Inr (PyStr (concat ss)), (h' ! a)\<lparr>tail := plain (PyStr (concat ss))\<rparr>)))
   \<and> (case element_setattro self ''text'' v of
         Inl e \<Rightarrow> False
       | Inr self' \<Rightarrow> element_get_text self' = (Inr v, self'))
   \<and> (case element_setattro self ''tail'' v of
         Inl e \<Rightarrow> False
       | Inr self' \<Rightarrow> element_get_tail self' = (Inr v, self'))"
  by (auto simp: treebuilder_set_element_text_def treebuilder_set_element_tail_def
        element_get_text_def element_get_tail_def JOIN_SET_def JOIN_GET_def JOIN_OBJ_def
        plain_def join_items_strs element_setattro_def Let_def)

theorem join_pending_text_witness:
  "(0::nat) < length ex_heap
   \<and> fst (element_get_text
        (case treebuilder_set_element_text (Elem 0) (PyList [PyStr ''hel'', PyStr ''lo'']) ex_heap
         of Inr h' \<Rightarrow> h' ! 0 | Inl e \<Rightarrow> ex_heap ! 0)) = Inr (PyStr ''hello'')
   \<and> fst (element_get_text
        (case element_setattro (ex_heap ! 0) ''text'' (PyList [PyStr ''hel'', PyStr ''lo''])
         of Inr e' \<Rightarrow> e' | Inl e \<Rightarrow> ex_heap ! 0)) = Inr (PyList [PyStr ''hel'', PyStr ''lo''])"
  using join_pending_text [where a = 0 and h = ex_heap and ss = "[''hel'', ''lo'']"
          and self = "ex_heap ! 0" and v = "PyList [PyStr ''hel'', PyStr ''lo'']"]
  by (auto simp: ex_heap_def split: sum.splits)

subsection \<open>Undefined entities\<close>






subsection \<open>Slice assignment\<close>








lemma length_buf_set [simp]: "length (buf_set buf i v) = length buf"
  by (simp add: buf_set_def)


lemma length_delete_shift [simp]: "length (delete_shift buf i n d) = length buf"
  by (induction buf i n d rule: delete_shift.induct) (subst delete_shift.simps, simp)

lemma length_insert_shift [simp]: "length (insert_shift buf i stop d) = length buf"
  by (induction buf i stop d rule: insert_shift.induct) (subst insert_shift.simps, simp)

lemma length_replace_slice [simp]: "length (replace_slice buf cur st seq) = length buf"
  by (induction seq arbitrary: buf cur) simp_all







lemma new_allocated_ge: "0 < s \<Longrightarrow> s \<le> new_allocated s"
proof -
  assume "0 < s"
  then have "0 \<le> s div 8" by simp
  then show ?thesis by (simp add: new_allocated_def Let_def)
qed


lemma length_grown: "length (grown old keep n) = n"
  by (simp add: grown_def)




text \<open>
  \<open>element_ok\<close> holds of a new element and is kept by \<^verbatim>\<open>element_resize\<close> and by
  appending a child.
\<close>

lemma element_ok_new: "element_ok (create_new_element tg at)"
  by (simp add: element_ok_def create_new_element_def create_extra_def STATIC_CHILDREN_def Let_def
      split: option.splits)

lemma element_ok_resize:
  assumes "element_ok self" and "0 \<le> d"
  shows "element_ok (element_resize self d)
       \<and> (\<exists>x. extra (element_resize self d) = Some x \<and> len x + d \<le> allocated x
               \<and> len x = element_length self)"
proof -
  let ?self = "if extra self = None then create_extra self None else self"
  obtain x where x: "extra ?self = Some x" by (cases "extra self") (simp_all add: create_extra_def)
  have all: "0 \<le> len x \<and> len x \<le> allocated x \<and> allocated x = int (length (children x))
      \<and> len x = element_length self"
    using assms(1) x
    by (cases "extra self")
       (auto simp: element_ok_def create_extra_def STATIC_CHILDREN_def element_length_def)
  then have ok: "0 \<le> len x" "len x \<le> allocated x" "allocated x = int (length (children x))"
    and l: "len x = element_length self"
    by simp_all
  show ?thesis
  proof (cases "len x + d > allocated x")
    case True
    have "0 < len x + d" using True ok by simp
    then have "len x + d \<le> new_allocated (len x + d)" by (rule new_allocated_ge)
    with True x ok l assms(2) show ?thesis
      by (cases "extra self") (auto simp: element_resize_def Let_def element_ok_def length_grown)
  next
    case False
    with x ok l show ?thesis
      by (cases "extra self") (auto simp: element_resize_def Let_def element_ok_def)
  qed
qed

lemma element_ok_add_subelement:
  assumes "element_ok self"
  shows "element_ok (element_add_subelement self child)"
proof -
  from element_ok_resize [OF assms, of 1] obtain x where
    x: "extra (element_resize self 1) = Some x" "len x + 1 \<le> allocated x"
    and ok: "element_ok (element_resize self 1)"
    by auto
  from ok x show ?thesis
    by (simp add: element_add_subelement_def Let_def element_ok_def buf_set_def)
qed




text \<open>
  Outside the case \<open>start \<le> stop\<close>: the slice \<^verbatim>\<open>[3:1]\<close> of five children is empty, and
  assigning one element to it shifts the children from index 1 on and writes at index 3.
\<close>

lemma slice_start_after_stop_example:
  "element_getchildren
     (snd (element_ass_subscr ex_elem (At_slice (Some 3) (Some 1) None (Some (Iterable [Elem 99])))))
   = [Some (Elem 10), Some (Elem 11), Some (Elem 11), Some (Elem 99), Some (Elem 13),
      Some (Elem 14)]"
  by (simp add: element_ass_subscr_def element_length_def ex_elem_def PySlice_GetIndicesEx_def
        clip_index_def assign_slice_def element_resize_def element_getchildren_def Let_def
        insert_shift.simps buf_set_def buf_get_def)

end
